theory Spec2Isabelle
  imports Complex_Main
begin

section \<open>Data model (src/client/src/services/apiService.tsx)\<close>

text \<open>
  JavaScript numbers that carry percentages are modelled as \<open>int\<close> (the data model
  stores integer percents). A JavaScript \<open>Date\<close> is its time value in milliseconds;
  \<open>None\<close> is the Invalid Date, whose time value is NaN and which compares false
  with everything. An optional field \<open>f?: t\<close> is a \<open>t option\<close>.
\<close>

type_synonym Date = "int option"

datatype Role = RoleEngineer | RoleManager

datatype Seniority = junior | mid | senior

record User =
  user_id :: string
  user_alt_id :: "string option"
  email :: string
  user_name :: string
  user_role :: Role
  skills :: "string list option"
  seniority :: "Seniority option"
  maxCapacity :: int
  department :: string
  user_availableCapacity :: "int option"
  currentAllocation :: "int option"

record EngineerRef =
  eng_id :: string
  eng_name :: string
  eng_email :: string
  eng_skills :: "string list"
  eng_seniority :: string

record ProjectRef =
  proj_id :: string
  proj_name :: string
  proj_description :: string
  proj_status :: string

record Assignment =
  assignment_id :: string
  engineerId :: EngineerRef
  projectId :: ProjectRef
  allocationPercentage :: int
  startDate :: string
  endDate :: string
  role :: string
  createdAt :: string
  updatedAt :: string

section \<open>Date helpers (src/lib/utils.ts)\<close>

text \<open>
  \<open>isDateInRange\<close> accepts \<open>string | Date\<close> arguments. The string parser
  (\<open>parseISO\<close> of date-fns) is a parameter of the model; it returns the Invalid Date
  (\<open>None\<close>) on text it cannot read. \<open>isAfter\<close> and \<open>isBefore\<close> of date-fns
  compare time values with \<open>>\<close> and \<open><\<close>, so they are false on an Invalid Date.
  The clock reading \<open>new Date()\<close> is the parameter \<open>now\<close>.
\<close>

datatype DateArg = DateString string | DateObject Date

fun toDate :: "(string \<Rightarrow> Date) \<Rightarrow> DateArg \<Rightarrow> Date" where
  "toDate parseISO (DateString s) = parseISO s"
| "toDate parseISO (DateObject d) = d"

fun isAfter :: "Date \<Rightarrow> Date \<Rightarrow> bool" where
  "isAfter (Some a) (Some b) = (a > b)"
| "isAfter _ _ = False"

fun isBefore :: "Date \<Rightarrow> Date \<Rightarrow> bool" where
  "isBefore (Some a) (Some b) = (a < b)"
| "isBefore _ _ = False"

definition isDateInRange :: "(string \<Rightarrow> Date) \<Rightarrow> int \<Rightarrow> DateArg \<Rightarrow> DateArg \<Rightarrow> bool" where
  "isDateInRange parseISO now startDateArg endDateArg =
     (let start = toDate parseISO startDateArg;
          end' = toDate parseISO endDateArg
      in isAfter (Some now) start \<and> isBefore (Some now) end')"

text \<open>
  The overlap test in the words of the specification, for comparison with the code:
  an assignment interval overlaps a query range when
  \<open>startDate \<le> rangeEnd\<close> and \<open>endDate \<ge> rangeStart\<close>.
\<close>

definition spec_overlaps :: "int \<Rightarrow> int \<Rightarrow> int \<Rightarrow> int \<Rightarrow> bool" where
  "spec_overlaps aStart aEnd rangeStart rangeEnd = (aStart \<le> rangeEnd \<and> aEnd \<ge> rangeStart)"

text \<open>A parser table for three ISO dates (UTC midnight), used in concrete evaluations.\<close>

definition sampleParse :: "string \<Rightarrow> Date" where
  "sampleParse = map_of
     [(''2024-01-01'', 1704067200000),
      (''2024-01-15'', 1705276800000),
      (''2024-01-31'', 1706659200000)]"

section \<open>Engineer dashboard (EngineerDashboard component)\<close>

definition userId :: "User option \<Rightarrow> string option" where
  "userId user =
     (case user of
        None \<Rightarrow> None
      | Some u \<Rightarrow> if user_id u \<noteq> [] then Some (user_id u) else user_alt_id u)"

definition myAssignments :: "User option \<Rightarrow> Assignment list \<Rightarrow> Assignment list" where
  "myAssignments user assignments =
     filter (\<lambda>a. Some (eng_id (engineerId a)) = userId user) assignments"

definition activeAssignments ::
  "(string \<Rightarrow> Date) \<Rightarrow> int \<Rightarrow> User option \<Rightarrow> Assignment list \<Rightarrow> Assignment list" where
  "activeAssignments parseISO now user assignments =
     filter (\<lambda>a. isDateInRange parseISO now (DateString (startDate a)) (DateString (endDate a)))
            (myAssignments user assignments)"

definition currentWorkload ::
  "(string \<Rightarrow> Date) \<Rightarrow> int \<Rightarrow> User option \<Rightarrow> Assignment list \<Rightarrow> int" where
  "currentWorkload parseISO now user assignments =
     foldl (\<lambda>sum assignment. sum + allocationPercentage assignment) 0
           (activeAssignments parseISO now user assignments)"

text \<open>
  \<open>authState.user?.maxCapacity || 100\<close>: the default 100 is taken when no user is
  loaded and also when the user's maxCapacity is 0, which is falsy.
\<close>

definition dashboard_maxCapacity :: "User option \<Rightarrow> int" where
  "dashboard_maxCapacity user =
     (case user of
        None \<Rightarrow> 100
      | Some u \<Rightarrow> if maxCapacity u \<noteq> 0 then maxCapacity u else 100)"

definition availableCapacity ::
  "(string \<Rightarrow> Date) \<Rightarrow> int \<Rightarrow> User option \<Rightarrow> Assignment list \<Rightarrow> int" where
  "availableCapacity parseISO now user assignments =
     max 0 (dashboard_maxCapacity user - currentWorkload parseISO now user assignments)"

section \<open>JavaScript number arithmetic with non-finite values\<close>

text \<open>
  Utilization percentages are computed with JavaScript's \<open>/\<close>, which does not fail on
  a zero divisor: it yields \<open>Infinity\<close>, \<open>-Infinity\<close> or \<open>NaN\<close>. The model keeps
  these three values apart from the finite ones. Finite values are exact rationals
  (rounding of doubles is not modelled) and zero is unsigned (a divisor \<open>-0\<close> is not
  distinguished from \<open>0\<close>).
\<close>

datatype jsnum = Fin rat | PosInf | NegInf | NaN

definition num :: "int \<Rightarrow> jsnum" where
  "num i = Fin (of_int i)"

fun isFinite :: "jsnum \<Rightarrow> bool" where
  "isFinite (Fin _) = True"
| "isFinite _ = False"

fun jsdiv :: "jsnum \<Rightarrow> jsnum \<Rightarrow> jsnum" where
  "jsdiv NaN _ = NaN"
| "jsdiv _ NaN = NaN"
| "jsdiv (Fin a) (Fin b) =
     (if b = 0 then (if a = 0 then NaN else if a > 0 then PosInf else NegInf)
      else Fin (a / b))"
| "jsdiv (Fin a) _ = Fin 0"
| "jsdiv PosInf (Fin b) = (if b \<ge> 0 then PosInf else NegInf)"
| "jsdiv NegInf (Fin b) = (if b \<ge> 0 then NegInf else PosInf)"
| "jsdiv _ _ = NaN"

fun jsmul :: "jsnum \<Rightarrow> jsnum \<Rightarrow> jsnum" where
  "jsmul NaN _ = NaN"
| "jsmul _ NaN = NaN"
| "jsmul (Fin a) (Fin b) = Fin (a * b)"
| "jsmul (Fin a) PosInf = (if a = 0 then NaN else if a > 0 then PosInf else NegInf)"
| "jsmul (Fin a) NegInf = (if a = 0 then NaN else if a > 0 then NegInf else PosInf)"
| "jsmul PosInf (Fin b) = (if b = 0 then NaN else if b > 0 then PosInf else NegInf)"
| "jsmul NegInf (Fin b) = (if b = 0 then NaN else if b > 0 then NegInf else PosInf)"
| "jsmul PosInf PosInf = PosInf"
| "jsmul NegInf NegInf = PosInf"
| "jsmul _ _ = NegInf"

fun jsadd :: "jsnum \<Rightarrow> jsnum \<Rightarrow> jsnum" where
  "jsadd NaN _ = NaN"
| "jsadd _ NaN = NaN"
| "jsadd (Fin a) (Fin b) = Fin (a + b)"
| "jsadd (Fin a) y = y"
| "jsadd x (Fin b) = x"
| "jsadd PosInf PosInf = PosInf"
| "jsadd NegInf NegInf = NegInf"
| "jsadd _ _ = NaN"

fun jsgt :: "jsnum \<Rightarrow> jsnum \<Rightarrow> bool" where
  "jsgt NaN _ = False"
| "jsgt _ NaN = False"
| "jsgt (Fin a) (Fin b) = (a > b)"
| "jsgt PosInf PosInf = False"
| "jsgt PosInf _ = True"
| "jsgt NegInf _ = False"
| "jsgt (Fin a) NegInf = True"
| "jsgt (Fin a) PosInf = False"

text \<open>\<open>x || 0\<close> on an optional number: \<open>undefined\<close> and \<open>0\<close> are falsy.\<close>

definition orZero :: "int option \<Rightarrow> int" where
  "orZero x = (case x of None \<Rightarrow> 0 | Some a \<Rightarrow> if a \<noteq> 0 then a else 0)"

section \<open>Engineers page (src/client/src/pages/EngineersPage.tsx)\<close>

definition utilizationPercentage :: "User \<Rightarrow> jsnum" where
  "utilizationPercentage engineer =
     (case currentAllocation engineer of
        None \<Rightarrow> num 0
      | Some a \<Rightarrow>
          if a \<noteq> 0 then jsmul (jsdiv (num a) (num (maxCapacity engineer))) (num 100)
          else num 0)"

section \<open>Manager dashboard (src/client/src/pages/ManagerDashboard.tsx)\<close>

definition dashboard_isOverAllocated :: "User \<Rightarrow> bool" where
  "dashboard_isOverAllocated e =
     (case currentAllocation e of
        None \<Rightarrow> False
      | Some a \<Rightarrow> a \<noteq> 0 \<and> a > maxCapacity e)"

definition overAllocatedEngineers :: "User list \<Rightarrow> nat" where
  "overAllocatedEngineers engineers = length (filter dashboard_isOverAllocated engineers)"

definition averageUtilization :: "User list \<Rightarrow> jsnum" where
  "averageUtilization engineers =
     (if length engineers > 0
      then jsdiv
             (foldl (\<lambda>sum engineer.
                       let utilization = orZero (currentAllocation engineer)
                       in jsadd sum (jsmul (jsdiv (num utilization) (num (maxCapacity engineer)))
                                           (num 100)))
                    (num 0) engineers)
             (num (int (length engineers)))
      else num 0)"

section \<open>Analytics page (src/client/src/pages/AnalyticsPage.tsx)\<close>

record UtilizationRow =
  row_name :: string
  fullName :: string
  utilization :: jsnum
  capacity :: int
  allocated :: int
  row_available :: int
  row_seniority :: "Seniority option"
  row_skills :: "string list"

definition utilizationAnalysis :: "User list \<Rightarrow> UtilizationRow list" where
  "utilizationAnalysis engineers =
     map (\<lambda>engineer.
            let currentAllocation' = orZero (currentAllocation engineer);
                utilizationPercentage' =
                  jsmul (jsdiv (num currentAllocation') (num (maxCapacity engineer))) (num 100)
            in \<lparr> row_name = takeWhile (\<lambda>c. c \<noteq> CHR '' '') (user_name engineer),
                 fullName = user_name engineer,
                 utilization = utilizationPercentage',
                 capacity = maxCapacity engineer,
                 allocated = currentAllocation',
                 row_available = maxCapacity engineer - currentAllocation',
                 row_seniority = seniority engineer,
                 row_skills = (case skills engineer of None \<Rightarrow> [] | Some ss \<Rightarrow> ss) \<rparr>)
         engineers"

definition kpis_overAllocatedEngineers :: "UtilizationRow list \<Rightarrow> nat" where
  "kpis_overAllocatedEngineers rows =
     length (filter (\<lambda>eng. jsgt (utilization eng) (num 100)) rows)"

section \<open>Application state and reducer (src/contexts/AppContext.tsx)\<close>

datatype ProjectStatus = planning | active | completed

record ManagerRef =
  mgr_id :: string
  mgr_name :: string
  mgr_email :: string

record Project =
  project_id :: string
  project_name :: string
  description :: string
  project_startDate :: string
  project_endDate :: string
  requiredSkills :: "string list"
  teamSize :: int
  status :: ProjectStatus
  managerId :: ManagerRef
  project_createdAt :: string
  project_updatedAt :: string

record UtilizationData =
  ud_engineerId :: string
  ud_name :: string
  ud_maxCapacity :: int
  ud_currentAllocation :: int
  ud_utilizationPercentage :: rat

record AppState =
  engineers :: "User list"
  engineersLoading :: bool
  engineersError :: "string option"
  projects :: "Project list"
  projectsLoading :: bool
  projectsError :: "string option"
  assignments :: "Assignment list"
  assignmentsLoading :: bool
  assignmentsError :: "string option"
  utilizationData :: "UtilizationData list"
  analyticsLoading :: bool
  analyticsError :: "string option"
  isCreating :: bool
  isUpdating :: bool
  isDeleting :: bool

datatype AppAction =
    LOAD_ENGINEERS_START
  | LOAD_ENGINEERS_SUCCESS "User list"
  | LOAD_ENGINEERS_FAILURE string
  | LOAD_PROJECTS_START
  | LOAD_PROJECTS_SUCCESS "Project list"
  | LOAD_PROJECTS_FAILURE string
  | CREATE_PROJECT_START
  | CREATE_PROJECT_SUCCESS Project
  | CREATE_PROJECT_FAILURE string
  | UPDATE_PROJECT_START
  | UPDATE_PROJECT_SUCCESS Project
  | UPDATE_PROJECT_FAILURE string
  | DELETE_PROJECT_START
  | DELETE_PROJECT_SUCCESS string
  | DELETE_PROJECT_FAILURE string
  | LOAD_ASSIGNMENTS_START
  | LOAD_ASSIGNMENTS_SUCCESS "Assignment list"
  | LOAD_ASSIGNMENTS_FAILURE string
  | CREATE_ASSIGNMENT_START
  | CREATE_ASSIGNMENT_SUCCESS Assignment
  | CREATE_ASSIGNMENT_FAILURE string
  | UPDATE_ASSIGNMENT_START
  | UPDATE_ASSIGNMENT_SUCCESS Assignment
  | UPDATE_ASSIGNMENT_FAILURE string
  | DELETE_ASSIGNMENT_START
  | DELETE_ASSIGNMENT_SUCCESS string
  | DELETE_ASSIGNMENT_FAILURE string
  | LOAD_ANALYTICS_START
  | LOAD_ANALYTICS_SUCCESS "UtilizationData list"
  | LOAD_ANALYTICS_FAILURE string
  | CLEAR_ERROR string
  | RESET_STATE

definition initialState :: AppState where
  "initialState =
     \<lparr> engineers = [], engineersLoading = False, engineersError = None,
       projects = [], projectsLoading = False, projectsError = None,
       assignments = [], assignmentsLoading = False, assignmentsError = None,
       utilizationData = [], analyticsLoading = False, analyticsError = None,
       isCreating = False, isUpdating = False, isDeleting = False \<rparr>"

text \<open>
  \<open>CLEAR_ERROR\<close> writes \<open>null\<close> to the property named \<open>errorType + "Error"\<close>. For the
  four error fields of the state that clears the field; for any other text JavaScript
  adds a property that no reader of \<open>AppState\<close> looks at, so the model leaves the state
  as it is.
\<close>

fun appReducer :: "AppState \<Rightarrow> AppAction \<Rightarrow> AppState" where
  "appReducer state LOAD_ENGINEERS_START =
     state\<lparr>engineersLoading := True, engineersError := None\<rparr>"
| "appReducer state (LOAD_ENGINEERS_SUCCESS payload) =
     state\<lparr>engineers := payload, engineersLoading := False, engineersError := None\<rparr>"
| "appReducer state (LOAD_ENGINEERS_FAILURE payload) =
     state\<lparr>engineersLoading := False, engineersError := Some payload\<rparr>"
| "appReducer state LOAD_PROJECTS_START =
     state\<lparr>projectsLoading := True, projectsError := None\<rparr>"
| "appReducer state (LOAD_PROJECTS_SUCCESS payload) =
     state\<lparr>projects := payload, projectsLoading := False, projectsError := None\<rparr>"
| "appReducer state (LOAD_PROJECTS_FAILURE payload) =
     state\<lparr>projectsLoading := False, projectsError := Some payload\<rparr>"
| "appReducer state CREATE_PROJECT_START =
     state\<lparr>isCreating := True, projectsError := None\<rparr>"
| "appReducer state (CREATE_PROJECT_SUCCESS payload) =
     state\<lparr>projects := payload # projects state, isCreating := False, projectsError := None\<rparr>"
| "appReducer state (CREATE_PROJECT_FAILURE payload) =
     state\<lparr>isCreating := False, projectsError := Some payload\<rparr>"
| "appReducer state UPDATE_PROJECT_START =
     state\<lparr>isUpdating := True, projectsError := None\<rparr>"
| "appReducer state (UPDATE_PROJECT_SUCCESS payload) =
     state\<lparr>projects := map (\<lambda>project. if project_id project = project_id payload
                                        then payload else project) (projects state),
            isUpdating := False, projectsError := None\<rparr>"
| "appReducer state (UPDATE_PROJECT_FAILURE payload) =
     state\<lparr>isUpdating := False, projectsError := Some payload\<rparr>"
| "appReducer state DELETE_PROJECT_START =
     state\<lparr>isDeleting := True, projectsError := None\<rparr>"
| "appReducer state (DELETE_PROJECT_SUCCESS payload) =
     state\<lparr>projects := filter (\<lambda>project. project_id project \<noteq> payload) (projects state),
            isDeleting := False, projectsError := None\<rparr>"
| "appReducer state (DELETE_PROJECT_FAILURE payload) =
     state\<lparr>isDeleting := False, projectsError := Some payload\<rparr>"
| "appReducer state LOAD_ASSIGNMENTS_START =
     state\<lparr>assignmentsLoading := True, assignmentsError := None\<rparr>"
| "appReducer state (LOAD_ASSIGNMENTS_SUCCESS payload) =
     state\<lparr>assignments := payload, assignmentsLoading := False, assignmentsError := None\<rparr>"
| "appReducer state (LOAD_ASSIGNMENTS_FAILURE payload) =
     state\<lparr>assignmentsLoading := False, assignmentsError := Some payload\<rparr>"
| "appReducer state CREATE_ASSIGNMENT_START =
     state\<lparr>isCreating := True, assignmentsError := None\<rparr>"
| "appReducer state (CREATE_ASSIGNMENT_SUCCESS payload) =
     state\<lparr>assignments := payload # assignments state, isCreating := False,
            assignmentsError := None\<rparr>"
| "appReducer state (CREATE_ASSIGNMENT_FAILURE payload) =
     state\<lparr>isCreating := False, assignmentsError := Some payload\<rparr>"
| "appReducer state UPDATE_ASSIGNMENT_START =
     state\<lparr>isUpdating := True, assignmentsError := None\<rparr>"
| "appReducer state (UPDATE_ASSIGNMENT_SUCCESS payload) =
     state\<lparr>assignments := map (\<lambda>assignment. if assignment_id assignment = assignment_id payload
                                              then payload else assignment) (assignments state),
            isUpdating := False, assignmentsError := None\<rparr>"
| "appReducer state (UPDATE_ASSIGNMENT_FAILURE payload) =
     state\<lparr>isUpdating := False, assignmentsError := Some payload\<rparr>"
| "appReducer state DELETE_ASSIGNMENT_START =
     state\<lparr>isDeleting := True, assignmentsError := None\<rparr>"
| "appReducer state (DELETE_ASSIGNMENT_SUCCESS payload) =
     state\<lparr>assignments := filter (\<lambda>assignment. assignment_id assignment \<noteq> payload)
                                  (assignments state),
            isDeleting := False, assignmentsError := None\<rparr>"
| "appReducer state (DELETE_ASSIGNMENT_FAILURE payload) =
     state\<lparr>isDeleting := False, assignmentsError := Some payload\<rparr>"
| "appReducer state LOAD_ANALYTICS_START =
     state\<lparr>analyticsLoading := True, analyticsError := None\<rparr>"
| "appReducer state (LOAD_ANALYTICS_SUCCESS payload) =
     state\<lparr>utilizationData := payload, analyticsLoading := False, analyticsError := None\<rparr>"
| "appReducer state (LOAD_ANALYTICS_FAILURE payload) =
     state\<lparr>analyticsLoading := False, analyticsError := Some payload\<rparr>"
| "appReducer state (CLEAR_ERROR errorType) =
     (if errorType = ''engineers'' then state\<lparr>engineersError := None\<rparr>
      else if errorType = ''projects'' then state\<lparr>projectsError := None\<rparr>
      else if errorType = ''assignments'' then state\<lparr>assignmentsError := None\<rparr>
      else if errorType = ''analytics'' then state\<lparr>analyticsError := None\<rparr>
      else state)"
| "appReducer state RESET_STATE = initialState"

text \<open>
  The analytics page computes its data only when engineers, projects and assignments
  are all loaded and non-empty; otherwise \<open>analyticsData\<close> is \<open>null\<close> and no KPI
  is shown.
\<close>

definition analyticsData_overAllocatedEngineers ::
  "User list \<Rightarrow> Project list \<Rightarrow> Assignment list \<Rightarrow> nat option" where
  "analyticsData_overAllocatedEngineers engineers' projects' assignments' =
     (if length engineers' = 0 \<or> length projects' = 0 \<or> length assignments' = 0 then None
      else Some (kpis_overAllocatedEngineers (utilizationAnalysis engineers')))"

section \<open>Context methods (AppProvider)\<close>

text \<open>
  A call of a REST service either resolves with its payload (\<open>Inr\<close>) or rejects with an
  \<open>Error\<close> carrying a message (\<open>Inl\<close>); the services and the server behind them are
  outside the client, so each response is a parameter. A context method returns the
  state after its dispatches, together with the error it rethrows (\<open>None\<close> when it
  resolves).
\<close>

definition loadEngineers :: "string + User list \<Rightarrow> AppState \<Rightarrow> AppState" where
  "loadEngineers response state =
     (let s1 = appReducer state LOAD_ENGINEERS_START
      in case response of
           Inr engineers' \<Rightarrow> appReducer s1 (LOAD_ENGINEERS_SUCCESS engineers')
         | Inl errorMessage \<Rightarrow> appReducer s1 (LOAD_ENGINEERS_FAILURE errorMessage))"

text \<open>
  \<open>getEngineerCapacity\<close>: the response carries \<open>availableCapacity\<close>; a rejected
  request is caught and answered with 0.
\<close>

definition getEngineerCapacity :: "string + int \<Rightarrow> int" where
  "getEngineerCapacity response =
     (case response of
        Inr availableCapacity' \<Rightarrow> availableCapacity'
      | Inl error \<Rightarrow> 0)"

record AssignmentFormData =
  form_engineerId :: string
  form_projectId :: string
  form_allocationPercentage :: int
  form_startDate :: string
  form_endDate :: string
  form_role :: string

definition createAssignment ::
  "string + Assignment \<Rightarrow> string + User list \<Rightarrow> AssignmentFormData \<Rightarrow> AppState
     \<Rightarrow> string option \<times> AppState" where
  "createAssignment response engineersResponse assignmentData state =
     (let s1 = appReducer state CREATE_ASSIGNMENT_START
      in case response of
           Inr assignment \<Rightarrow>
             (None, loadEngineers engineersResponse
                      (appReducer s1 (CREATE_ASSIGNMENT_SUCCESS assignment)))
         | Inl errorMessage \<Rightarrow>
             (Some errorMessage, appReducer s1 (CREATE_ASSIGNMENT_FAILURE errorMessage)))"

definition updateAssignment ::
  "string + Assignment \<Rightarrow> string + User list \<Rightarrow> string \<Rightarrow> AssignmentFormData \<Rightarrow> AppState
     \<Rightarrow> string option \<times> AppState" where
  "updateAssignment response engineersResponse id' assignmentData state =
     (let s1 = appReducer state UPDATE_ASSIGNMENT_START
      in case response of
           Inr assignment \<Rightarrow>
             (None, loadEngineers engineersResponse
                      (appReducer s1 (UPDATE_ASSIGNMENT_SUCCESS assignment)))
         | Inl errorMessage \<Rightarrow>
             (Some errorMessage, appReducer s1 (UPDATE_ASSIGNMENT_FAILURE errorMessage)))"

definition deleteAssignment ::
  "string + unit \<Rightarrow> string + User list \<Rightarrow> string \<Rightarrow> AppState \<Rightarrow> string option \<times> AppState" where
  "deleteAssignment response engineersResponse id' state =
     (let s1 = appReducer state DELETE_ASSIGNMENT_START
      in case response of
           Inr _ \<Rightarrow>
             (None, loadEngineers engineersResponse
                      (appReducer s1 (DELETE_ASSIGNMENT_SUCCESS id')))
         | Inl errorMessage \<Rightarrow>
             (Some errorMessage, appReducer s1 (DELETE_ASSIGNMENT_FAILURE errorMessage)))"

section \<open>Assignments page (src/pages/AssignmentsPage.tsx)\<close>

text \<open>Decimal text of an integer, as a template literal prints it.\<close>

fun showNat :: "nat \<Rightarrow> string" where
  "showNat n =
     (if n < 10 then [''0123456789'' ! n]
      else showNat (n div 10) @ [''0123456789'' ! (n mod 10)])"

declare showNat.simps [simp del]

definition showInt :: "int \<Rightarrow> string" where
  "showInt i = (if i < 0 then CHR ''-'' # showNat (nat (- i)) else showNat (nat i))"


record CapacityInfo =
  available :: int
  message :: string

record PageState =
  isCreateDialogOpen :: bool
  isEditDialogOpen :: bool
  editingAssignment :: "Assignment option"
  capacityInfo :: "CapacityInfo option"

text \<open>
  What a handler does besides changing state: the alerts it shows, the context methods
  it calls, the form reset and the console message, in order.
\<close>

datatype Effect =
    Alert string
  | CallCreateAssignment AssignmentFormData
  | CallUpdateAssignment string AssignmentFormData
  | ResetForm
  | ConsoleError string

text \<open>
  The capacity effect that runs when the watched engineer or dates change. The
  \<open>catch\<close> branch of the source cannot be reached, since \<open>getEngineerCapacity\<close>
  catches every failure itself. An unset watched field is the empty text.
\<close>

definition checkCapacity ::
  "string + int \<Rightarrow> User list \<Rightarrow> string \<Rightarrow> string \<Rightarrow> string \<Rightarrow> PageState \<Rightarrow> PageState" where
  "checkCapacity response engineers' watchedEngineerId watchedStartDate watchedEndDate page =
     (if watchedEngineerId \<noteq> [] \<and> watchedStartDate \<noteq> [] \<and> watchedEndDate \<noteq> []
      then
        let capacity' = getEngineerCapacity response
        in case find (\<lambda>e. user_id e = watchedEngineerId) engineers' of
             Some engineer \<Rightarrow>
               page\<lparr>capacityInfo :=
                      Some \<lparr> available = capacity',
                             message =
                               (if capacity' > 0
                                then showInt capacity' @ ''% capacity available during this period''
                                else ''Engineer is fully allocated during this period'') \<rparr>\<rparr>
           | None \<Rightarrow> page
      else page)"

text \<open>
  \<open>onSubmit\<close>. The first test returns early, before any context method is called. The
  value of \<open>editingAssignment\<close> read in the \<open>catch\<close> branch is the one the handler
  started with.
\<close>

definition onSubmit ::
  "string + Assignment \<Rightarrow> string + User list \<Rightarrow> AssignmentFormData \<Rightarrow> PageState \<Rightarrow> AppState
     \<Rightarrow> PageState \<times> AppState \<times> Effect list" where
  "onSubmit response engineersResponse data page state =
     (let exceeded =
            (case editingAssignment page of
               Some _ \<Rightarrow> None
             | None \<Rightarrow>
                 (case capacityInfo page of
                    None \<Rightarrow> None
                  | Some ci \<Rightarrow>
                      if form_allocationPercentage data > available ci then Some ci else None))
      in case exceeded of
           Some ci \<Rightarrow>
             (page, state,
              [Alert (''Engineer only has '' @ showInt (available ci)
                      @ ''% capacity available. Please reduce the allocation percentage.'')])
         | None \<Rightarrow>
             (case editingAssignment page of
                Some ea \<Rightarrow>
                  (case updateAssignment response engineersResponse (assignment_id ea) data state of
                     (None, state') \<Rightarrow>
                       (page\<lparr>isEditDialogOpen := False, editingAssignment := None,
                             capacityInfo := None\<rparr>,
                        state',
                        [CallUpdateAssignment (assignment_id ea) data,
                         Alert ''Assignment updated successfully!'',
                         ResetForm])
                   | (Some error, state') \<Rightarrow>
                       (page, state',
                        [CallUpdateAssignment (assignment_id ea) data,
                         ConsoleError ''Failed to save assignment:'',
                         Alert ''Failed to update assignment. Please check the details and try again.'']))
              | None \<Rightarrow>
                  (case createAssignment response engineersResponse data state of
                     (None, state') \<Rightarrow>
                       (page\<lparr>isCreateDialogOpen := False, capacityInfo := None\<rparr>,
                        state',
                        [CallCreateAssignment data,
                         Alert ''Assignment created successfully!'',
                         ResetForm])
                   | (Some error, state') \<Rightarrow>
                       (page, state',
                        [CallCreateAssignment data,
                         ConsoleError ''Failed to save assignment:'',
                         Alert ''Failed to create assignment. Please check the details and try again.'']))))"


section \<open>Sample records for concrete evaluations\<close>

definition sampleUser :: User where
  "sampleUser =
     \<lparr> user_id = ''u1'', user_alt_id = None, email = ''ada@example.com'',
       user_name = ''Ada Byron'', user_role = RoleEngineer, skills = Some [''React''],
       seniority = Some senior, maxCapacity = 100, department = ''Platform'',
       user_availableCapacity = Some 50, currentAllocation = Some 50 \<rparr>"

definition zeroCapacityUser :: User where
  "zeroCapacityUser = sampleUser\<lparr>user_id := ''u2'', maxCapacity := 0, currentAllocation := Some 0\<rparr>"

definition sampleAssignment :: Assignment where
  "sampleAssignment =
     \<lparr> assignment_id = ''a1'',
       engineerId = \<lparr> eng_id = ''u1'', eng_name = ''Ada Byron'', eng_email = ''ada@example.com'',
                      eng_skills = [''React''], eng_seniority = ''senior'' \<rparr>,
       projectId = \<lparr> proj_id = ''p1'', proj_name = ''Portal'', proj_description = ''Customer portal'',
                     proj_status = ''active'' \<rparr>,
       allocationPercentage = 50,
       startDate = ''2024-01-01'', endDate = ''2024-01-31'',
       role = ''Developer'', createdAt = ''2023-12-01'', updatedAt = ''2023-12-01'' \<rparr>"

definition sampleForm :: AssignmentFormData where
  "sampleForm =
     \<lparr> form_engineerId = ''u1'', form_projectId = ''p1'', form_allocationPercentage = 60,
       form_startDate = ''2024-01-15'', form_endDate = ''2024-01-31'', form_role = ''Developer'' \<rparr>"

definition samplePage :: PageState where
  "samplePage =
     \<lparr> isCreateDialogOpen = True, isEditDialogOpen = False, editingAssignment = None,
       capacityInfo = Some \<lparr> available = 50,
                             message = ''50% capacity available during this period'' \<rparr> \<rparr>"

section \<open>Properties of the active-assignment test and the engineer's workload\<close>

lemma foldl_add_sum_list:
  "foldl (\<lambda>sum a. sum + f a) z xs = z + sum_list (map f xs)"
  by (induction xs arbitrary: z) (simp_all add: add.assoc)

lemma isDateInRange_string_iff:
  "isDateInRange parseISO now (DateString s) (DateString e) \<longleftrightarrow>
     (\<exists>a b. parseISO s = Some a \<and> parseISO e = Some b \<and> a < now \<and> now < b)"
  by (cases "parseISO s"; cases "parseISO e") (simp_all add: isDateInRange_def)

text \<open>
  Claim C4, as amended. The test that selects the assignments counted toward the
  workload (\<open>isDateInRange\<close>) compares one instant, the current time, with the
  assignment's dates, and both comparisons are strict: an assignment counts exactly when
  both dates are valid and \<open>startDate < now < endDate\<close>. An assignment that starts or
  ends exactly at the evaluation instant does not count, so the test is not inclusive of
  touching boundaries as \<open>startDate \<le> rangeEnd \<and> endDate \<ge> rangeStart\<close> would be.
\<close>

theorem isDateInRange_strict:
  "isDateInRange parseISO now startDateArg endDateArg \<longleftrightarrow>
     (\<exists>a b. toDate parseISO startDateArg = Some a \<and> toDate parseISO endDateArg = Some b
            \<and> a < now \<and> now < b)"
  by (cases "toDate parseISO startDateArg"; cases "toDate parseISO endDateArg")
     (simp_all add: isDateInRange_def)

theorem isDateInRange_strict_witness:
  "isDateInRange sampleParse 1705276800000 (DateString ''2024-01-01'') (DateString ''2024-01-31'')
   \<and> \<not> isDateInRange sampleParse 1704067200000
         (DateObject (Some 1704067200000)) (DateString ''2024-01-31'')"
  using isDateInRange_strict [of sampleParse 1705276800000
          "DateString ''2024-01-01''" "DateString ''2024-01-31''"]
        isDateInRange_strict [of sampleParse 1704067200000
          "DateObject (Some 1704067200000)" "DateString ''2024-01-31''"]
  by (simp add: sampleParse_def)

text \<open>
  The claim as stated fails on the boundary: at the instant 2024-01-01 (and at the instant
  2024-01-31) the assignment 2024-01-01 .. 2024-01-31 overlaps the instant by the inclusive
  test, and the code does not count it.
\<close>

theorem isDateInRange_boundary_counterexample:
  "spec_overlaps 1704067200000 1706659200000 1704067200000 1704067200000
   \<and> \<not> isDateInRange sampleParse 1704067200000
         (DateString ''2024-01-01'') (DateString ''2024-01-31'')
   \<and> spec_overlaps 1704067200000 1706659200000 1706659200000 1706659200000
   \<and> \<not> isDateInRange sampleParse 1706659200000
         (DateString ''2024-01-01'') (DateString ''2024-01-31'')"
  by (simp add: spec_overlaps_def isDateInRange_def sampleParse_def)

text \<open>
  Claim C5, as amended. The available capacity on the engineer dashboard is
  \<open>max 0 (M - allocated)\<close>, where \<open>M\<close> is the engineer's maxCapacity when that is not 0,
  and 100 when it is 0 or when no user is loaded; it is never negative.
\<close>

theorem availableCapacity_eq:
  "availableCapacity parseISO now user asgs =
     max 0 ((case user of
               None \<Rightarrow> 100
             | Some u \<Rightarrow> if maxCapacity u = 0 then 100 else maxCapacity u)
            - currentWorkload parseISO now user asgs)
   \<and> availableCapacity parseISO now user asgs \<ge> 0"
  by (simp add: availableCapacity_def dashboard_maxCapacity_def split: option.splits)

theorem availableCapacity_eq_witness:
  "availableCapacity sampleParse 1705276800000 (Some sampleUser) [sampleAssignment] = 50"
  using availableCapacity_eq [of sampleParse 1705276800000 "Some sampleUser" "[sampleAssignment]"]
  by (simp add: sampleUser_def sampleAssignment_def currentWorkload_def activeAssignments_def
       myAssignments_def userId_def sampleParse_def isDateInRange_def)

text \<open>
  The claim as stated fails for an engineer whose maxCapacity is 0: with nothing
  allocated the dashboard reports 100 available, where \<open>max 0 (maxCapacity - allocated)\<close>
  is 0.
\<close>

theorem availableCapacity_zero_max_counterexample:
  "maxCapacity zeroCapacityUser = 0
   \<and> currentWorkload sampleParse 1705276800000 (Some zeroCapacityUser) [sampleAssignment] = 0
   \<and> availableCapacity sampleParse 1705276800000 (Some zeroCapacityUser) [sampleAssignment] = 100
   \<and> max 0 (maxCapacity zeroCapacityUser
            - currentWorkload sampleParse 1705276800000 (Some zeroCapacityUser) [sampleAssignment])
       = 0"
  by (simp add: zeroCapacityUser_def sampleUser_def sampleAssignment_def availableCapacity_def
       dashboard_maxCapacity_def currentWorkload_def activeAssignments_def myAssignments_def
       userId_def)

text \<open>
  Claim C6, as amended. For every engineer and evaluation instant, the allocated capacity
  (\<open>currentWorkload\<close>) is the sum of allocationPercentage over exactly those assignments
  that belong to the engineer and whose dates are valid with \<open>startDate < now < endDate\<close>;
  assignments of other engineers, and assignments that do not strictly contain the
  instant, contribute nothing.
\<close>

theorem currentWorkload_sum:
  "currentWorkload parseISO now user asgs =
     (\<Sum>a \<leftarrow> filter (\<lambda>a. Some (eng_id (engineerId a)) = userId user
                        \<and> (\<exists>s e. parseISO (startDate a) = Some s \<and> parseISO (endDate a) = Some e
                                 \<and> s < now \<and> now < e))
                   asgs.
        allocationPercentage a)"
  by (simp add: currentWorkload_def activeAssignments_def myAssignments_def foldl_add_sum_list
       isDateInRange_string_iff conj_commute)

theorem currentWorkload_sum_witness:
  "currentWorkload sampleParse 1705276800000 (Some sampleUser)
      [sampleAssignment,
       sampleAssignment\<lparr>engineerId := (engineerId sampleAssignment)\<lparr>eng_id := ''u2''\<rparr>\<rparr>] = 50"
  using currentWorkload_sum [of sampleParse 1705276800000 "Some sampleUser"
      "[sampleAssignment,
        sampleAssignment\<lparr>engineerId := (engineerId sampleAssignment)\<lparr>eng_id := ''u2''\<rparr>\<rparr>]"]
  by (simp add: sampleUser_def sampleAssignment_def userId_def sampleParse_def)

text \<open>
  The claim as stated fails on the boundary: an assignment of the engineer that starts at
  the evaluation instant overlaps it by the inclusive test, and its 50 percent are not
  part of the workload.
\<close>

theorem currentWorkload_boundary_counterexample:
  "Some (eng_id (engineerId sampleAssignment)) = userId (Some sampleUser)
   \<and> sampleParse (startDate sampleAssignment) = Some 1704067200000
   \<and> sampleParse (endDate sampleAssignment) = Some 1706659200000
   \<and> spec_overlaps 1704067200000 1706659200000 1704067200000 1704067200000
   \<and> allocationPercentage sampleAssignment = 50
   \<and> currentWorkload sampleParse 1704067200000 (Some sampleUser) [sampleAssignment] = 0"
  by (simp add: sampleUser_def sampleAssignment_def currentWorkload_def activeAssignments_def
       myAssignments_def userId_def spec_overlaps_def sampleParse_def isDateInRange_def)

section \<open>Over-allocation and utilization\<close>

lemma dashboard_isOverAllocated_iff:
  "0 \<le> maxCapacity e \<Longrightarrow>
     dashboard_isOverAllocated e \<longleftrightarrow> orZero (currentAllocation e) > maxCapacity e"
  by (auto simp: dashboard_isOverAllocated_def orZero_def split: option.splits)

lemma utilization_gt_100_iff:
  "0 \<le> m \<Longrightarrow> jsgt (jsmul (jsdiv (num a) (num m)) (num 100)) (num 100) \<longleftrightarrow> a > m"
proof (cases "m = 0")
  case True
  then show ?thesis by (simp add: num_def)
next
  case False
  assume "0 \<le> m"
  with False have m: "0 < (of_int m :: rat)" by simp
  have "(of_int a / of_int m * 100 > (100::rat)) \<longleftrightarrow> (of_int a > (of_int m :: rat))"
    using m by (simp add: field_simps)
  then show ?thesis using False by (simp add: num_def)
qed

lemma analytics_filter_eq:
  "filter (\<lambda>eng. jsgt (utilization eng) (num 100)) (utilizationAnalysis es) =
   utilizationAnalysis (filter (\<lambda>e. jsgt (jsmul (jsdiv (num (orZero (currentAllocation e))) (num (maxCapacity e))) (num 100)) (num 100)) es)"
  by (induction es) (simp_all add: utilizationAnalysis_def Let_def)

text \<open>
  Claim C7. For engineers whose maxCapacity is not negative (the data model stores 0 to
  100), an engineer is reported as over-allocated if and only if the allocated capacity
  (\<open>currentAllocation\<close>, 0 when absent) is strictly greater than maxCapacity: the
  manager dashboard and the analytics KPI both count exactly those engineers, and an
  engineer whose allocation equals maxCapacity is not counted. (The analytics page
  shows its KPI only once engineers, projects and assignments are loaded.)
\<close>

theorem overAllocated_iff:
  assumes "\<forall>e \<in> set es. 0 \<le> maxCapacity e"
  shows "overAllocatedEngineers es =
           length (filter (\<lambda>e. orZero (currentAllocation e) > maxCapacity e) es)
       \<and> kpis_overAllocatedEngineers (utilizationAnalysis es) =
           length (filter (\<lambda>e. orZero (currentAllocation e) > maxCapacity e) es)
       \<and> analyticsData_overAllocatedEngineers es ps asgs =
           (if es = [] \<or> ps = [] \<or> asgs = [] then None
            else Some (length (filter (\<lambda>e. orZero (currentAllocation e) > maxCapacity e) es)))
       \<and> (\<forall>e \<in> set es. dashboard_isOverAllocated e \<longleftrightarrow> orZero (currentAllocation e) > maxCapacity e)"
proof -
  have 1: "filter dashboard_isOverAllocated es = filter (\<lambda>e. orZero (currentAllocation e) > maxCapacity e) es"
    using assms by (intro filter_cong refl) (simp add: dashboard_isOverAllocated_iff)
  have 2: "filter (\<lambda>e. jsgt (jsmul (jsdiv (num (orZero (currentAllocation e))) (num (maxCapacity e))) (num 100)) (num 100)) es
         = filter (\<lambda>e. orZero (currentAllocation e) > maxCapacity e) es"
    using assms by (intro filter_cong refl) (simp add: utilization_gt_100_iff)
  have 3: "length (utilizationAnalysis xs) = length xs" for xs
    by (simp add: utilizationAnalysis_def)
  show ?thesis
    using assms
    by (simp add: overAllocatedEngineers_def kpis_overAllocatedEngineers_def 1 analytics_filter_eq 2 3
        dashboard_isOverAllocated_iff analyticsData_overAllocatedEngineers_def)
qed

theorem overAllocated_iff_witness:
  "0 \<le> maxCapacity sampleUser
   \<and> overAllocatedEngineers
        [sampleUser, sampleUser\<lparr>currentAllocation := Some 100\<rparr>,
         sampleUser\<lparr>currentAllocation := Some 110\<rparr>] = 1
   \<and> kpis_overAllocatedEngineers (utilizationAnalysis
        [sampleUser, sampleUser\<lparr>currentAllocation := Some 100\<rparr>,
         sampleUser\<lparr>currentAllocation := Some 110\<rparr>]) = 1
   \<and> \<not> dashboard_isOverAllocated (sampleUser\<lparr>currentAllocation := Some 100\<rparr>)"
  using overAllocated_iff [of "[sampleUser, sampleUser\<lparr>currentAllocation := Some 100\<rparr>,
                               sampleUser\<lparr>currentAllocation := Some 110\<rparr>]" "[]" "[]"]
  by (simp add: sampleUser_def orZero_def)

lemma jsadd_not_finite:
  "\<not> isFinite x \<or> \<not> isFinite y \<Longrightarrow> \<not> isFinite (jsadd x y)"
  by (cases x; cases y) simp_all

lemma jsdiv_not_finite:
  "\<not> isFinite x \<Longrightarrow> \<not> isFinite (jsdiv x (Fin b))"
  by (cases x) simp_all

lemma foldl_jsadd_acc_not_finite:
  "\<not> isFinite acc \<Longrightarrow> \<not> isFinite (foldl (\<lambda>s e. jsadd s (f e)) acc es)"
  by (induction es arbitrary: acc) (simp_all add: jsadd_not_finite)

lemma foldl_jsadd_elem_not_finite:
  "e \<in> set es \<Longrightarrow> \<not> isFinite (f e) \<Longrightarrow> \<not> isFinite (foldl (\<lambda>s e. jsadd s (f e)) acc es)"
proof (induction es arbitrary: acc)
  case Nil
  then show ?case by simp
next
  case (Cons x xs)
  show ?case
  proof (cases "e = x")
    case True
    with Cons.prems have "\<not> isFinite (jsadd acc (f x))" by (simp add: jsadd_not_finite)
    then show ?thesis by (simp add: foldl_jsadd_acc_not_finite)
  next
    case False
    with Cons show ?thesis by simp
  qed
qed

lemma ratio_zero_max:
  "jsmul (jsdiv (num a) (num 0)) (num 100) = (if a = 0 then NaN else if a > 0 then PosInf else NegInf)"
  by (simp add: num_def)

text \<open>
  Claim C9, as amended. For an engineer with maxCapacity 0, at the three places that
  divide the allocation by the engineer's maxCapacity: the average utilization of the
  manager dashboard is not a finite number for every team that contains the engineer;
  the utilization of the analytics page's utilization analysis is NaN when the
  allocation is 0 and an infinity otherwise; the utilization percentage of the engineers
  page is an infinity when the allocation is not 0, and is the finite number 0 when the
  allocation is 0 or absent (there the division is skipped).
\<close>

theorem utilization_zero_maxCapacity:
  assumes "e \<in> set es" and "maxCapacity e = 0"
  shows "\<not> isFinite (averageUtilization es)
       \<and> map utilization (utilizationAnalysis [e]) =
           [if orZero (currentAllocation e) = 0 then NaN
            else if orZero (currentAllocation e) > 0 then PosInf else NegInf]
       \<and> utilizationPercentage e =
           (if orZero (currentAllocation e) = 0 then Fin 0
            else if orZero (currentAllocation e) > 0 then PosInf else NegInf)"
proof -
  let ?f = "\<lambda>engineer. jsmul (jsdiv (num (orZero (currentAllocation engineer))) (num (maxCapacity engineer))) (num 100)"
  have "\<not> isFinite (?f e)" using assms(2) by (simp add: ratio_zero_max)
  then have "\<not> isFinite (foldl (\<lambda>s e. jsadd s (?f e)) (num 0) es)"
    using assms(1) by (rule foldl_jsadd_elem_not_finite[rotated])
  then have "\<not> isFinite (jsdiv (foldl (\<lambda>s e. jsadd s (?f e)) (num 0) es)
                               (Fin (of_int (int (length es)))))"
    by (rule jsdiv_not_finite)
  moreover have "es \<noteq> []" using assms(1) by auto
  ultimately have a: "\<not> isFinite (averageUtilization es)"
    by (simp add: averageUtilization_def Let_def num_def [of "int (length es)"])
  have b: "map utilization (utilizationAnalysis [e]) =
           [if orZero (currentAllocation e) = 0 then NaN
            else if orZero (currentAllocation e) > 0 then PosInf else NegInf]"
    using assms(2) by (simp add: utilizationAnalysis_def Let_def ratio_zero_max)
  have c: "utilizationPercentage e =
           (if orZero (currentAllocation e) = 0 then Fin 0
            else if orZero (currentAllocation e) > 0 then PosInf else NegInf)"
    using assms(2) by (simp add: utilizationPercentage_def orZero_def ratio_zero_max num_def split: option.splits)
  from a b c show ?thesis by blast
qed

theorem utilization_zero_maxCapacity_witness:
  "\<not> isFinite (averageUtilization [sampleUser, zeroCapacityUser])
   \<and> map utilization (utilizationAnalysis [zeroCapacityUser]) = [NaN]
   \<and> utilizationPercentage (zeroCapacityUser\<lparr>currentAllocation := Some 30\<rparr>) = PosInf"
  using utilization_zero_maxCapacity [of zeroCapacityUser "[sampleUser, zeroCapacityUser]"]
        utilization_zero_maxCapacity [of "zeroCapacityUser\<lparr>currentAllocation := Some 30\<rparr>" "[zeroCapacityUser\<lparr>currentAllocation := Some 30\<rparr>]"]
  by (simp add: zeroCapacityUser_def sampleUser_def orZero_def)

text \<open>
  The claim as stated fails for the allocation 0 on the engineers page: with
  maxCapacity 0 and currentAllocation 0 the utilization percentage is 0, a finite number.
\<close>

theorem utilizationPercentage_zero_allocation_counterexample:
  "maxCapacity zeroCapacityUser = 0
   \<and> currentAllocation zeroCapacityUser = Some 0
   \<and> utilizationPercentage zeroCapacityUser = Fin 0
   \<and> isFinite (utilizationPercentage zeroCapacityUser)"
  by (simp add: zeroCapacityUser_def sampleUser_def utilizationPercentage_def num_def)

section \<open>Assignment mutations in the application state\<close>

lemma loadEngineers_assignments:
  "assignments (loadEngineers r s) = assignments s"
  by (simp add: loadEngineers_def Let_def split: sum.splits)

text \<open>
  Claim C10. A failed create, update or delete of an assignment leaves the assignments
  collection as it was: the failure action of the reducer changes only the loading flag
  and the error message, and so does the whole context method when the service rejects
  (start action followed by failure action). A successful delete removes exactly the
  assignments with the given id and keeps all others, in order.
\<close>

theorem assignment_failure_atomic:
  "appReducer s (CREATE_ASSIGNMENT_FAILURE m) = s\<lparr>isCreating := False, assignmentsError := Some m\<rparr>
   \<and> appReducer s (UPDATE_ASSIGNMENT_FAILURE m) = s\<lparr>isUpdating := False, assignmentsError := Some m\<rparr>
   \<and> appReducer s (DELETE_ASSIGNMENT_FAILURE m) = s\<lparr>isDeleting := False, assignmentsError := Some m\<rparr>
   \<and> createAssignment (Inl m) er d s = (Some m, s\<lparr>isCreating := False, assignmentsError := Some m\<rparr>)
   \<and> updateAssignment (Inl m) er i d s = (Some m, s\<lparr>isUpdating := False, assignmentsError := Some m\<rparr>)
   \<and> deleteAssignment (Inl m) er i s = (Some m, s\<lparr>isDeleting := False, assignmentsError := Some m\<rparr>)
   \<and> appReducer s (DELETE_ASSIGNMENT_SUCCESS i) =
       s\<lparr>assignments := filter (\<lambda>a. assignment_id a \<noteq> i) (assignments s),
         isDeleting := False, assignmentsError := None\<rparr>
   \<and> assignments (snd (deleteAssignment (Inr ()) er i s)) =
       filter (\<lambda>a. assignment_id a \<noteq> i) (assignments s)"
  by (simp add: createAssignment_def updateAssignment_def deleteAssignment_def
       loadEngineers_assignments)

theorem assignment_failure_atomic_witness:
  "assignments (snd (deleteAssignment (Inl ''Failed to delete assignment'') (Inr []) ''a1''
                      (initialState\<lparr>assignments := [sampleAssignment]\<rparr>))) = [sampleAssignment]
   \<and> assignments (snd (deleteAssignment (Inr ()) (Inr []) ''a1''
        (initialState\<lparr>assignments :=
            [sampleAssignment, sampleAssignment\<lparr>assignment_id := ''a2''\<rparr>]\<rparr>)))
       = [sampleAssignment\<lparr>assignment_id := ''a2''\<rparr>]"
  using assignment_failure_atomic [of "initialState\<lparr>assignments := [sampleAssignment]\<rparr>"
          "''Failed to delete assignment''" "Inr []" sampleForm "''a1''"]
        assignment_failure_atomic [of "initialState\<lparr>assignments :=
            [sampleAssignment, sampleAssignment\<lparr>assignment_id := ''a2''\<rparr>]\<rparr>"
          "''x''" "Inr []" sampleForm "''a1''"]
  by (simp add: sampleAssignment_def)

section \<open>Capacity lookup and assignment submission\<close>

text \<open>
  Claim C3, as amended. When the capacity lookup fails, \<open>getEngineerCapacity\<close> answers
  0: the engineer is treated as having no capacity available, whatever the engineer's
  maxCapacity is, and the capacity information of the form then reads "fully allocated".
\<close>

theorem getEngineerCapacity_failure:
  "getEngineerCapacity (Inl err) = 0
   \<and> (watchedEngineerId \<noteq> [] \<and> watchedStartDate \<noteq> [] \<and> watchedEndDate \<noteq> []
      \<and> find (\<lambda>e. user_id e = watchedEngineerId) es = Some e
      \<longrightarrow> capacityInfo (checkCapacity (Inl err) es watchedEngineerId watchedStartDate watchedEndDate page)
          = Some \<lparr> available = 0, message = ''Engineer is fully allocated during this period'' \<rparr>)"
  by (simp add: getEngineerCapacity_def checkCapacity_def Let_def)

theorem getEngineerCapacity_failure_witness:
  "getEngineerCapacity (Inl ''Failed to load engineer capacity'') = 0
   \<and> capacityInfo (checkCapacity (Inl ''Failed to load engineer capacity'') [sampleUser]
                     ''u1'' ''2024-01-15'' ''2024-01-31'' samplePage)
       = Some \<lparr> available = 0, message = ''Engineer is fully allocated during this period'' \<rparr>"
  using getEngineerCapacity_failure [of "''Failed to load engineer capacity''" "''u1''"
          "''2024-01-15''" "''2024-01-31''" "[sampleUser]" sampleUser samplePage]
  by (simp add: sampleUser_def)

text \<open>
  The claim as stated fails: for an engineer with maxCapacity 100 a failed lookup gives
  0 available, not the full 100.
\<close>

theorem getEngineerCapacity_failure_counterexample:
  "maxCapacity sampleUser = 100
   \<and> getEngineerCapacity (Inl ''Failed to load engineer capacity'') = 0
   \<and> getEngineerCapacity (Inl ''Failed to load engineer capacity'') \<noteq> maxCapacity sampleUser"
  by (simp add: getEngineerCapacity_def sampleUser_def)




text \<open>
  Claim C1, as amended. For a new assignment, \<open>createAssignment\<close> is called exactly
  when no capacity information is loaded or the proposed allocationPercentage does not
  exceed the available capacity. When it exceeds the available capacity, \<open>onSubmit\<close>
  shows the alert and returns: the write is blocked and no state changes.
\<close>

theorem create_blocked_when_exceeding:
  assumes "editingAssignment page = None"
  shows "(CallCreateAssignment data \<in> set (snd (snd (onSubmit response engineersResponse data page st)))
            \<longleftrightarrow> (case capacityInfo page of
                   None \<Rightarrow> True
                 | Some ci \<Rightarrow> form_allocationPercentage data \<le> available ci))
       \<and> (\<forall>ci. capacityInfo page = Some ci \<and> form_allocationPercentage data > available ci \<longrightarrow>
            onSubmit response engineersResponse data page st =
              (page, st,
               [Alert (''Engineer only has '' @ showInt (available ci)
                       @ ''% capacity available. Please reduce the allocation percentage.'')]))"
  using assms
  by (auto simp: onSubmit_def Let_def createAssignment_def split: option.splits sum.splits prod.splits)

theorem create_blocked_when_exceeding_witness:
  "CallCreateAssignment (sampleForm\<lparr>form_allocationPercentage := 40\<rparr>) \<in>
     set (snd (snd (onSubmit (Inr sampleAssignment) (Inr [sampleUser])
                      (sampleForm\<lparr>form_allocationPercentage := 40\<rparr>) samplePage initialState)))
   \<and> onSubmit (Inl ''x'') (Inr [sampleUser]) sampleForm samplePage initialState =
       (samplePage, initialState,
        [Alert ''Engineer only has 50% capacity available. Please reduce the allocation percentage.''])"
  using create_blocked_when_exceeding [of samplePage "sampleForm\<lparr>form_allocationPercentage := 40\<rparr>"
          "Inr sampleAssignment" "Inr [sampleUser]" initialState]
        create_blocked_when_exceeding [of samplePage sampleForm "Inl ''x''" "Inr [sampleUser]" initialState]
  by (simp add: samplePage_def sampleForm_def showInt_def showNat.simps)

text \<open>
  The claim as stated fails: with maxCapacity 100, 50 percent already allocated and a
  proposed 60 percent, the alert is shown and \<open>createAssignment\<close> is not called.
\<close>

theorem create_blocked_counterexample:
  "editingAssignment samplePage = None
   \<and> capacityInfo samplePage =
       Some \<lparr> available = maxCapacity sampleUser - allocationPercentage sampleAssignment,
              message = ''50% capacity available during this period'' \<rparr>
   \<and> form_allocationPercentage sampleForm + allocationPercentage sampleAssignment
       > maxCapacity sampleUser
   \<and> onSubmit (Inr sampleAssignment) (Inr [sampleUser]) sampleForm samplePage
        (initialState\<lparr>engineers := [sampleUser], assignments := [sampleAssignment]\<rparr>) =
       (samplePage, initialState\<lparr>engineers := [sampleUser], assignments := [sampleAssignment]\<rparr>,
        [Alert ''Engineer only has 50% capacity available. Please reduce the allocation percentage.''])
   \<and> CallCreateAssignment sampleForm \<notin>
       set (snd (snd (onSubmit (Inr sampleAssignment) (Inr [sampleUser]) sampleForm samplePage
                       (initialState\<lparr>engineers := [sampleUser],
                                     assignments := [sampleAssignment]\<rparr>))))"
  by (simp add: onSubmit_def sampleForm_def samplePage_def sampleUser_def sampleAssignment_def
       showInt_def showNat.simps)

text \<open>
  Claim C2, as amended. For an edited assignment \<open>onSubmit\<close> makes no capacity check:
  \<open>updateAssignment\<close> is always called, the only alert is the success or failure
  message of the update, and the outcome does not depend on the capacity information.
\<close>

theorem edit_skips_capacity_check:
  assumes "editingAssignment page = Some ea"
  shows "snd (snd (onSubmit response engineersResponse data page st)) =
           CallUpdateAssignment (assignment_id ea) data #
             (case response of
                Inr _ \<Rightarrow> [Alert ''Assignment updated successfully!'', ResetForm]
              | Inl _ \<Rightarrow> [ConsoleError ''Failed to save assignment:'',
                          Alert ''Failed to update assignment. Please check the details and try again.''])
       \<and> fst (snd (onSubmit response engineersResponse data page st)) =
           snd (updateAssignment response engineersResponse (assignment_id ea) data st)
       \<and> snd (onSubmit response engineersResponse data (page\<lparr>capacityInfo := c\<rparr>) st) =
           snd (onSubmit response engineersResponse data page st)"
  using assms
  by (auto simp: onSubmit_def Let_def updateAssignment_def split: option.splits sum.splits prod.splits)

theorem edit_skips_capacity_check_witness:
  "snd (snd (onSubmit (Inl ''Failed to update assignment'') (Inr [sampleUser]) sampleForm
        (samplePage\<lparr>editingAssignment := Some sampleAssignment\<rparr>) initialState)) =
       [CallUpdateAssignment ''a1'' sampleForm,
        ConsoleError ''Failed to save assignment:'',
        Alert ''Failed to update assignment. Please check the details and try again.'']"
  using edit_skips_capacity_check [of "samplePage\<lparr>editingAssignment := Some sampleAssignment\<rparr>"
          sampleAssignment "Inl ''Failed to update assignment''" "Inr [sampleUser]" sampleForm initialState]
  by (simp add: samplePage_def sampleAssignment_def)

text \<open>
  The claim as stated fails: editing an assignment to 60 percent while another
  assignment of the engineer holds 50 percent of a maxCapacity of 100 is persisted
  without any capacity warning.
\<close>

theorem edit_no_warning_counterexample:
  "editingAssignment (samplePage\<lparr>isCreateDialogOpen := False, isEditDialogOpen := True,
                                editingAssignment := Some sampleAssignment\<rparr>)
     = Some sampleAssignment
   \<and> assignment_id (sampleAssignment\<lparr>assignment_id := ''a2''\<rparr>) \<noteq> assignment_id sampleAssignment
   \<and> eng_id (engineerId (sampleAssignment\<lparr>assignment_id := ''a2''\<rparr>)) = form_engineerId sampleForm
   \<and> form_allocationPercentage sampleForm
         + allocationPercentage (sampleAssignment\<lparr>assignment_id := ''a2''\<rparr>)
       > maxCapacity sampleUser
   \<and> snd (snd (onSubmit (Inr (sampleAssignment\<lparr>allocationPercentage := 60\<rparr>)) (Inr [sampleUser])
                 sampleForm
                 (samplePage\<lparr>isCreateDialogOpen := False, isEditDialogOpen := True,
                             editingAssignment := Some sampleAssignment\<rparr>)
                 (initialState\<lparr>engineers := [sampleUser],
                    assignments := [sampleAssignment,
                                    sampleAssignment\<lparr>assignment_id := ''a2''\<rparr>]\<rparr>))) =
       [CallUpdateAssignment ''a1'' sampleForm, Alert ''Assignment updated successfully!'', ResetForm]"
  by (simp add: onSubmit_def updateAssignment_def sampleForm_def samplePage_def sampleUser_def
       sampleAssignment_def)

end
